theory Spec2Isabelle
  imports Complex_Main
begin

section \<open>Numbers and colours\<close>

text \<open>
  The script computes with JavaScript numbers. Prices, scores, zoom levels and style
  weights are modelled as exact rationals: every comparison and every sum of the script
  is then the mathematical one, and the rounding of a double division is left out.
  Colours are the strings the script passes to the map library.
\<close>

type_synonym num = rat

subsection \<open>The discrete price ramp\<close>

text \<open>
  \<^verbatim>\<open>getPriceColor(price)\<close>: a chain of conditional expressions, tested from the
  highest threshold down.
\<close>

definition getPriceColor :: "num \<Rightarrow> string" where
  "getPriceColor price =
     (if price > 1500000 then ''#431407''
      else if price > 1200000 then ''#7c2d12''
      else if price > 1000000 then ''#c2410c''
      else if price > 800000 then ''#ea580c''
      else if price > 600000 then ''#f97316''
      else if price > 450000 then ''#fb923c''
      else if price > 300000 then ''#fdba74''
      else ''#fed7aa'')"

text \<open>
  The ramp as the specification words it: the thresholds with their colours, highest
  first; the lookup returns the colour of the first threshold, scanning downwards, that
  the value strictly exceeds, and the palest colour when there is none.
\<close>

definition price_breaks :: "(num \<times> string) list" where
  "price_breaks =
     [(1500000, ''#431407''), (1200000, ''#7c2d12''), (1000000, ''#c2410c''),
      (800000, ''#ea580c''), (600000, ''#f97316''), (450000, ''#fb923c''),
      (300000, ''#fdba74'')]"

definition palest :: string where
  "palest = ''#fed7aa''"

definition bucketColor :: "num \<Rightarrow> string" where
  "bucketColor v =
     (case find (\<lambda>(t, c). v > t) price_breaks of
        Some (t, c) \<Rightarrow> c
      | None \<Rightarrow> palest)"

subsection \<open>The continuous ramp\<close>

text \<open>
  \<^verbatim>\<open>Math.round\<close> rounds to the nearest integer, a half upwards, which is
  \<^const>\<open>round\<close>. A template literal prints an integer in decimal, with a minus
  sign when it is negative.
\<close>

definition digitChar :: "nat \<Rightarrow> char" where
  "digitChar d = ''0123456789'' ! d"

fun digits :: "nat \<Rightarrow> string" where
  "digits n =
     (if n < 10 then [digitChar n]
      else digits (n div 10) @ [digitChar (n mod 10)])"

declare digits.simps [simp del]

definition showInt :: "int \<Rightarrow> string" where
  "showInt i = (if i < 0 then CHR ''-'' # digits (nat (- i)) else digits (nat i))"

type_synonym rgb = "num \<times> num \<times> num"

text \<open>The three channels \<^verbatim>\<open>r\<close>, \<^verbatim>\<open>g\<close>, \<^verbatim>\<open>b\<close> of \<^verbatim>\<open>getScaleColor\<close>.\<close>

definition scaleChannels :: "num \<Rightarrow> rgb \<Rightarrow> rgb \<Rightarrow> int \<times> int \<times> int" where
  "scaleChannels v startRGB endRGB =
     (case (startRGB, endRGB) of
        ((s0, s1, s2), (e0, e1, e2)) \<Rightarrow>
          (round (s0 + (e0 - s0) * v),
           round (s1 + (e1 - s1) * v),
           round (s2 + (e2 - s2) * v)))"

definition getScaleColor :: "num \<Rightarrow> rgb \<Rightarrow> rgb \<Rightarrow> string" where
  "getScaleColor v startRGB endRGB =
     (case scaleChannels v startRGB endRGB of
        (r, g, b) \<Rightarrow>
          ''rgb('' @ showInt r @ '', '' @ showInt g @ '', '' @ showInt b @ '')'')"

definition getCrimeColor :: "num \<Rightarrow> string" where
  "getCrimeColor v = getScaleColor v (255, 255, 255) (220, 38, 38)"

definition getCentralColor :: "num \<Rightarrow> string" where
  "getCentralColor v = getScaleColor v (255, 255, 255) (37, 99, 235)"

definition getCultureColor :: "num \<Rightarrow> string" where
  "getCultureColor v = getScaleColor v (255, 255, 255) (217, 119, 6)"

section \<open>Data model\<close>

text \<open>
  A GeoJSON feature as the script reads it: \<^verbatim>\<open>properties.name\<close>, the label marker
  that \<^verbatim>\<open>onEachPostcode\<close> stores in \<^verbatim>\<open>properties.labelMarker\<close> (a marker is
  identified by a number), and the polygon rings of the geometry. A feature without a
  name is looked up under the key \<^verbatim>\<open>undefined\<close>, so it is the feature named so.
\<close>

type_synonym point = "num \<times> num"

record feature =
  name :: string
  labelMarker :: "nat option"
  geometry :: "point list list"

text \<open>
  A record of \<^verbatim>\<open>boroughData\<close>. \<^verbatim>\<open>prices\<close> maps a year to an object whose entries
  (property type, price) are kept in insertion order, the order of
  \<^verbatim>\<open>Object.values\<close>; a key occurs once in a JavaScript object.
\<close>

record metric_record =
  prices :: "int \<Rightarrow> (string \<times> num) list option"
  crime :: num
  central :: num
  culture :: num
  summary :: string

text \<open>
  The style objects the styling functions return. \<^verbatim>\<open>dashArray\<close> and
  \<^verbatim>\<open>interactive\<close> are absent from some of them.
\<close>

record style =
  fillColor :: string
  weight :: num
  opacity :: num
  color :: string
  dashArray :: "string option"
  fillOpacity :: num
  interactive :: "bool option"

text \<open>
  What the map holds: the two GeoJSON layers and the label markers. Every call of
  \<^verbatim>\<open>addTo\<close> and \<^verbatim>\<open>removeLayer\<close> is logged, so that a call made twice shows.
\<close>

datatype layer = BoroughLayer | PostcodeLayer | Marker nat

datatype map_call = AddLayer layer | RemoveLayer layer

type_synonym bounds = "point \<times> point"

text \<open>
  The script's global variables, once \<^verbatim>\<open>loadData\<close> has created both layers (the
  handlers below run then). \<^verbatim>\<open>postcodeLayer\<close> is the list of its sub-layers, each
  with its feature and the style last applied to it; \<^verbatim>\<open>viewport\<close> is the bounds
  last passed to \<^verbatim>\<open>map.fitBounds\<close>.
\<close>

text \<open>
  \<^verbatim>\<open>boroughData\<close> holds the own properties of the object of that name, the records
  that \<^verbatim>\<open>loadData\<close> has stored.
\<close>

record state =
  currentYear :: int
  currentType :: string
  maxPrice :: num
  currentMode :: string
  currentZoom :: num
  boroughData :: "string \<Rightarrow> metric_record option"
  activeBoroughGeometry :: "feature option"
  postcodeLayer :: "(feature \<times> style) list"
  mapLayers :: "layer set"
  mapCalls :: "map_call list"
  viewport :: "bounds option"

text \<open>
  Exceptions: a call of an identifier that nothing binds, a property read on
  \<^verbatim>\<open>undefined\<close>, and an exception thrown by the geometry library.
\<close>

datatype js_error = ReferenceError string | TypeError string | LibraryError string

datatype 'a outcome = Returned 'a | Threw js_error 'a

text \<open>
  The geometry library \<^verbatim>\<open>turf\<close> is not part of the script: its two functions are
  parameters. \<^verbatim>\<open>booleanPointInPolygon\<close> may throw. Where the script tests
  \<^verbatim>\<open>typeof turf !== 'undefined'\<close>, the library is an option.
\<close>

record turf_lib =
  center :: "feature \<Rightarrow> point"
  booleanPointInPolygon :: "point \<Rightarrow> feature \<Rightarrow> js_error + bool"

section \<open>Styling\<close>

text \<open>\<^verbatim>\<open>x || 0\<close> on a number that may be missing.\<close>

definition orZero :: "num option \<Rightarrow> num" where
  "orZero x = (case x of None \<Rightarrow> 0 | Some v \<Rightarrow> if v = 0 then 0 else v)"

text \<open>
  The value that \<^verbatim>\<open>getFeatureStyle\<close> computes in price mode, before it chooses
  the colour (the debug output for 2026 writes to the console only).
\<close>

definition resolveValue :: "state \<Rightarrow> metric_record \<Rightarrow> num" where
  "resolveValue st data =
     (case prices data (currentYear st) of
        None \<Rightarrow> 0
      | Some p \<Rightarrow>
          if currentType st = ''all'' then
            (let values = map snd p
             in if length values \<noteq> 0
                then foldl (+) 0 values / of_nat (length values) else 0)
          else orZero (map_of p (currentType st)))"

text \<open>
  \<^verbatim>\<open>boroughData\<close> is a plain object, so \<^verbatim>\<open>boroughData[name]\<close> finds an own
  property first and a member of \<^verbatim>\<open>Object.prototype\<close> otherwise. These are the names
  of the members that the language standard gives the prototype; each of them is a
  function or an object, which is truthy and has no metric.
\<close>

definition objectPrototypeKeys :: "string list" where
  "objectPrototypeKeys =
     [''constructor'', ''__defineGetter__'', ''__defineSetter__'', ''hasOwnProperty'',
      ''__lookupGetter__'', ''__lookupSetter__'', ''isPrototypeOf'',
      ''propertyIsEnumerable'', ''toString'', ''valueOf'', ''__proto__'',
      ''toLocaleString'']"

datatype lookup = NoProperty | InheritedMember | OwnRecord metric_record

definition getData :: "state \<Rightarrow> string \<Rightarrow> lookup" where
  "getData st n =
     (case boroughData st n of
        Some r \<Rightarrow> OwnRecord r
      | None \<Rightarrow> if n \<in> set objectPrototypeKeys then InheritedMember else NoProperty)"

text \<open>
  \<^verbatim>\<open>getScaleColor\<close> on \<^verbatim>\<open>undefined\<close>, the metric of an inherited member: every
  channel is \<^verbatim>\<open>NaN\<close>.
\<close>

definition nanColor :: string where
  "nanColor = ''rgb(NaN, NaN, NaN)''"

text \<open>
  \<^verbatim>\<open>getFeatureStyle\<close>. On an inherited member the test \<^verbatim>\<open>!data\<close> fails as on a
  record; in price mode \<^verbatim>\<open>data.prices\<close> is then \<^verbatim>\<open>undefined\<close> and reading
  \<^verbatim>\<open>data.prices[currentYear]\<close> throws a TypeError.
\<close>

definition getFeatureStyle ::
  "state \<Rightarrow> feature \<Rightarrow> num \<Rightarrow> num \<Rightarrow> string \<Rightarrow> num \<Rightarrow> js_error + style" where
  "getFeatureStyle st feature defaultOpacity w borderColor fillOp =
     (case getData st (name feature) of
        NoProperty \<Rightarrow>
          Inr \<lparr>fillColor = ''#ccc'', weight = w, opacity = 1, color = borderColor,
               dashArray = None, fillOpacity = 2 / 10, interactive = None\<rparr>
      | OwnRecord data \<Rightarrow>
          (let c =
             (if currentMode st = ''price'' then
                (let v = resolveValue st data
                 in if v > maxPrice st then ''#431407'' else getPriceColor v)
              else if currentMode st = ''crime'' then getCrimeColor (crime data)
              else if currentMode st = ''central'' then getCentralColor (central data)
              else if currentMode st = ''culture'' then getCultureColor (culture data)
              else ''#ccc'')
           in Inr \<lparr>fillColor = c, weight = w, opacity = 1, color = borderColor,
                   dashArray = Some [], fillOpacity = fillOp, interactive = None\<rparr>)
      | InheritedMember \<Rightarrow>
          if currentMode st = ''price'' then Inl (TypeError ''data.prices is undefined'')
          else
            (let c =
               (if currentMode st = ''crime'' then nanColor
                else if currentMode st = ''central'' then nanColor
                else if currentMode st = ''culture'' then nanColor
                else ''#ccc'')
             in Inr \<lparr>fillColor = c, weight = w, opacity = 1, color = borderColor,
                     dashArray = Some [], fillOpacity = fillOp, interactive = None\<rparr>))"

definition hiddenStyle :: style where
  "hiddenStyle =
     \<lparr>fillColor = ''transparent'', weight = 0, opacity = 0, color = ''transparent'',
      dashArray = None, fillOpacity = 0, interactive = Some False\<rparr>"

definition stylePostcode :: "state \<Rightarrow> turf_lib option \<Rightarrow> feature \<Rightarrow> js_error + style" where
  "stylePostcode st turf feature =
     (case (activeBoroughGeometry st, turf) of
        (Some focus, Some T) \<Rightarrow>
          (case booleanPointInPolygon T (center T feature) focus of
             Inl e \<Rightarrow> Inl e
           | Inr isInside \<Rightarrow>
               if \<not> isInside then Inr hiddenStyle
               else getFeatureStyle st feature (9 / 10) (15 / 10) ''#fff'' (9 / 10))
      | _ \<Rightarrow> getFeatureStyle st feature (9 / 10) 1 ''#eee'' (8 / 10))"

section \<open>The two layers and the zoom level\<close>

definition MAP_ZOOM_DEFAULT :: num where
  "MAP_ZOOM_DEFAULT = 10"

definition MAP_ZOOM_SELECTED :: num where
  "MAP_ZOOM_SELECTED = 12"

definition hasLayer :: "state \<Rightarrow> layer \<Rightarrow> bool" where
  "hasLayer st l = (l \<in> mapLayers st)"

definition addLayer :: "state \<Rightarrow> layer \<Rightarrow> state" where
  "addLayer st l =
     st\<lparr>mapLayers := insert l (mapLayers st), mapCalls := mapCalls st @ [AddLayer l]\<rparr>"

definition removeLayer :: "state \<Rightarrow> layer \<Rightarrow> state" where
  "removeLayer st l =
     st\<lparr>mapLayers := mapLayers st - {l}, mapCalls := mapCalls st @ [RemoveLayer l]\<rparr>"

text \<open>
  The markers that \<^verbatim>\<open>postcodeLayer.eachLayer\<close> finds: those of the sub-layers whose
  feature has one.
\<close>

definition labelMarkers :: "state \<Rightarrow> layer list" where
  "labelMarkers st =
     concat (map (\<lambda>(f, s). case labelMarker f of None \<Rightarrow> [] | Some m \<Rightarrow> [Marker m])
       (postcodeLayer st))"

text \<open>\<^verbatim>\<open>handleZoomChange\<close>, with the level that \<^verbatim>\<open>map.getZoom()\<close> returns.\<close>

definition handleZoomChange :: "state \<Rightarrow> num \<Rightarrow> state" where
  "handleZoomChange st0 zoom =
     (let st = st0\<lparr>currentZoom := zoom\<rparr>
      in if zoom \<ge> MAP_ZOOM_SELECTED - 1 then
           (let st1 = (if hasLayer st BoroughLayer then removeLayer st BoroughLayer else st)
            in if \<not> hasLayer st1 PostcodeLayer
               then foldl addLayer (addLayer st1 PostcodeLayer) (labelMarkers st1)
               else st1)
         else
           (let st1 =
              (if hasLayer st PostcodeLayer
               then foldl removeLayer (removeLayer st PostcodeLayer) (labelMarkers st)
               else st)
            in if \<not> hasLayer st1 BoroughLayer then addLayer st1 BoroughLayer else st1))"

text \<open>
  The state at the end of \<^verbatim>\<open>loadData\<close>, for the metric records it has stored and
  the fine layer it has created: the globals at their initial values, the coarse layer
  added to the map, the fine layer not added.
\<close>

definition loadedState ::
  "(string \<Rightarrow> metric_record option) \<Rightarrow> (feature \<times> style) list \<Rightarrow> state" where
  "loadedState data fine =
     \<lparr>currentYear = 2025, currentType = ''all'', maxPrice = 5000000,
      currentMode = ''price'', currentZoom = MAP_ZOOM_DEFAULT, boroughData = data,
      activeBoroughGeometry = None, postcodeLayer = fine,
      mapLayers = {BoroughLayer}, mapCalls = [AddLayer BoroughLayer],
      viewport = None\<rparr>"

text \<open>
  \<^verbatim>\<open>L.geoJSON(data, {style: f, onEachFeature: onEachPostcode})\<close> creates one sub-layer
  per feature, in turn: it applies the style \<^verbatim>\<open>f\<close> of the feature, and
  \<^verbatim>\<open>onEachPostcode\<close> then stores a new label marker in the feature. An exception of
  \<^verbatim>\<open>f\<close> ends the construction.
\<close>

fun geoJSON ::
  "(feature \<Rightarrow> js_error + style) \<Rightarrow> nat \<Rightarrow> feature list
     \<Rightarrow> js_error + (feature \<times> style) list" where
  "geoJSON sf i [] = Inr []"
| "geoJSON sf i (f # fs) =
     (case sf f of
        Inl e \<Rightarrow> Inl e
      | Inr s \<Rightarrow>
          (case geoJSON sf (Suc i) fs of
             Inl e \<Rightarrow> Inl e
           | Inr ls \<Rightarrow> Inr ((f\<lparr>labelMarker := Some i\<rparr>, s) # ls)))"

text \<open>
  The part of \<^verbatim>\<open>loadData\<close> that follows the filling of \<^verbatim>\<open>boroughData\<close>, for the
  records stored and the fine features fetched. An exception is caught and reported to
  the user, and leaves no fine layer.
\<close>

definition loadData ::
  "(string \<Rightarrow> metric_record option) \<Rightarrow> turf_lib option \<Rightarrow> feature list
     \<Rightarrow> js_error + state" where
  "loadData data turf postcodes =
     (case geoJSON (stylePostcode (loadedState data []) turf) 0 postcodes of
        Inl e \<Rightarrow> Inl e
      | Inr fine \<Rightarrow> Inr (loadedState data fine))"

section \<open>Focus activation\<close>

text \<open>
  \<^verbatim>\<open>postcodeLayer.setStyle(f)\<close> calls \<^verbatim>\<open>f\<close> on the feature of each sub-layer in
  turn and applies the result; an exception of \<^verbatim>\<open>f\<close> ends the loop, the styles
  applied so far staying.
\<close>

fun setStyle ::
  "(feature \<Rightarrow> js_error + style) \<Rightarrow> (feature \<times> style) list
     \<Rightarrow> (feature \<times> style) list \<times> js_error option" where
  "setStyle f [] = ([], None)"
| "setStyle f ((x, s) # ls) =
     (case f x of
        Inl e \<Rightarrow> ((x, s) # ls, Some e)
      | Inr s' \<Rightarrow> (case setStyle f ls of (ls', r) \<Rightarrow> ((x, s') # ls', r)))"

text \<open>The functions that \<^verbatim>\<open>script.js\<close> declares.\<close>

definition script_functions :: "string list" where
  "script_functions =
     [''initMap'', ''initControls'', ''loadData'', ''getCombinedData'',
      ''handleZoomChange'', ''styleBorough'', ''stylePostcode'', ''getFeatureStyle'',
      ''onEachBorough'', ''onEachPostcode'', ''highlightFeature'',
      ''resetBoroughHighlight'', ''resetPostcodeHighlight'', ''getAveragePrice'',
      ''getPriceColor'', ''getCrimeColor'', ''getCentralColor'', ''getCultureColor'',
      ''getScaleColor'', ''onEachFeature'', ''highlightFeature'', ''resetHighlight'',
      ''zoomToFeature'', ''updateMapVisuals'', ''updateSidebar'', ''getScoreClass'',
      ''getScoreText'', ''updateLegend'']"

text \<open>
  A call \<^verbatim>\<open>g()\<close> of a global that the script does not declare: \<open>page\<close> holds the
  functions that the other scripts of the page bind, by name; a name that nothing binds
  raises a ReferenceError.
\<close>

definition callGlobal ::
  "(string \<Rightarrow> (state \<Rightarrow> state outcome) option) \<Rightarrow> string \<Rightarrow> state \<Rightarrow> state outcome" where
  "callGlobal page g st =
     (case page g of None \<Rightarrow> Threw (ReferenceError g) st | Some body \<Rightarrow> body st)"

text \<open>
  The click handler that \<^verbatim>\<open>onEachBorough\<close> installs on a coarse region, for the
  clicked feature and the bounds of its layer. In a loaded state \<^verbatim>\<open>postcodeLayer\<close>
  is set, so the test \<^verbatim>\<open>if (postcodeLayer)\<close> before the restyle passes. The zoom
  notification that \<^verbatim>\<open>fitBounds\<close> causes arrives as an event of its own.
\<close>

definition boroughClick ::
  "(string \<Rightarrow> (state \<Rightarrow> state outcome) option) \<Rightarrow> turf_lib option \<Rightarrow> state
     \<Rightarrow> feature \<Rightarrow> bounds \<Rightarrow> state outcome" where
  "boroughClick page turf st feature b =
     (let st1 = st\<lparr>activeBoroughGeometry := Some feature\<rparr>;
          st2 = st1\<lparr>viewport := Some b\<rparr>
      in case setStyle (stylePostcode st2 turf) (postcodeLayer st2) of
           (ls, Some e) \<Rightarrow> Threw e (st2\<lparr>postcodeLayer := ls\<rparr>)
         | (ls, None) \<Rightarrow> callGlobal page ''updatePostcodeLabels'' (st2\<lparr>postcodeLayer := ls\<rparr>))"

section \<open>The legend\<close>

text \<open>
  \<^verbatim>\<open>updateLegend\<close> builds one \<^verbatim>\<open>legend-item\<close> per entry: the background of its
  swatch and the text of its label (\<^verbatim>\<open>nextPrice\<close> is computed and not used). The
  pound sign is the character U+00A3.
\<close>

definition pound :: char where
  "pound = char_of (163 :: nat)"

definition legend_grades :: "num list" where
  "legend_grades = [0, 400000, 500000, 600000, 800000, 1000000, 1200000, 1500000]"

definition legend_labels :: "string list" where
  "legend_labels =
     [''< '' @ [pound] @ ''400k'', [pound] @ ''400k+'', [pound] @ ''500k+'',
      [pound] @ ''600k+'', [pound] @ ''800k+'', [pound] @ ''1M+'', [pound] @ ''1.2M+'',
      ''> '' @ [pound] @ ''1.5M'']"

definition updateLegend :: "state \<Rightarrow> (string \<times> string) list" where
  "updateLegend st =
     (if currentMode st = ''price'' then
        map (\<lambda>i. (getPriceColor (legend_grades ! i + 1), legend_labels ! i))
          [0..<length legend_grades]
      else
        (let colors =
           (if currentMode st = ''crime'' then (''white'', ''#dc2626'')
            else if currentMode st = ''central'' then (''white'', ''#2563eb'')
            else (''white'', ''#d97706''))
         in [(''linear-gradient(to right, '' @ fst colors @ '', '' @ snd colors @ '')'',
              ''Low to High'')]))"

text \<open>
  The break points of the price ramp from the lowest to the highest: 0, then the
  thresholds of \<^const>\<open>price_breaks\<close>.
\<close>

definition ramp_break_points :: "num list" where
  "ramp_break_points = 0 # rev (map fst price_breaks)"

section \<open>Scenario data\<close>

text \<open>
  The region of the specification's scenarios: its prices for 2025 are
  \<^verbatim>\<open>{detached: 900000, flat: 500000}\<close>. The store holds this region only.
\<close>

definition scenarioRecord :: metric_record where
  "scenarioRecord =
     \<lparr>prices = (\<lambda>y. if y = 2025 then Some [(''detached'', 900000), (''flat'', 500000)]
                   else None),
      crime = 1 / 2, central = 1 / 4, culture = 3 / 4, summary = ''Region A''\<rparr>"

definition scenarioData :: "string \<Rightarrow> metric_record option" where
  "scenarioData n = (if n = ''A'' then Some scenarioRecord else None)"

definition region :: "string \<Rightarrow> feature" where
  "region n = \<lparr>name = n, labelMarker = None, geometry = []\<rparr>"

text \<open>A region whose polygon is the rectangle between two corners.\<close>

definition rectangle :: "string \<Rightarrow> point \<Rightarrow> point \<Rightarrow> feature" where
  "rectangle n lo hi =
     \<lparr>name = n, labelMarker = None,
      geometry = [[(fst lo, snd lo), (fst hi, snd lo), (fst hi, snd hi), (fst lo, snd hi),
                   (fst lo, snd lo)]]\<rparr>"

text \<open>A region whose geometry is degenerate: two positions only.\<close>

definition sliver :: "string \<Rightarrow> point \<Rightarrow> point \<Rightarrow> feature" where
  "sliver n p q = \<lparr>name = n, labelMarker = None, geometry = [[p, q]]\<rparr>"

text \<open>
  A geometry library for the scenarios, exact on rectangles with sides along the axes:
  the centre of a feature is the centre of the bounding box of its positions, and a
  point is in a polygon when it is in the bounding box of the polygon. On a degenerate
  polygon, one with fewer than four positions, the test cannot be made, and throws.
\<close>

definition boundingBox :: "feature \<Rightarrow> bounds option" where
  "boundingBox f =
     (case concat (geometry f) of
        [] \<Rightarrow> None
      | p # ps \<Rightarrow>
          Some (foldl (\<lambda>(lo, hi) q. ((min (fst lo) (fst q), min (snd lo) (snd q)),
                    (max (fst hi) (fst q), max (snd hi) (snd q)))) (p, p) ps))"

definition boxCenter :: "feature \<Rightarrow> point" where
  "boxCenter f =
     (case boundingBox f of
        None \<Rightarrow> (0, 0)
      | Some (lo, hi) \<Rightarrow> ((fst lo + fst hi) / 2, (snd lo + snd hi) / 2))"

definition boxContains :: "point \<Rightarrow> feature \<Rightarrow> js_error + bool" where
  "boxContains q g =
     (if length (concat (geometry g)) < 4 then Inl (LibraryError ''degenerate polygon'')
      else
        (case boundingBox g of
           None \<Rightarrow> Inl (LibraryError ''degenerate polygon'')
         | Some (lo, hi) \<Rightarrow>
             Inr (fst lo \<le> fst q \<and> fst q \<le> fst hi \<and> snd lo \<le> snd q \<and> snd q \<le> snd hi)))"

definition boxTurf :: turf_lib where
  "boxTurf = \<lparr>center = boxCenter, booleanPointInPolygon = boxContains\<rparr>"

text \<open>
  The functions that the other scripts of a page bind: here the generator of synthetic
  records, which \<^verbatim>\<open>getCombinedData\<close> calls, and nothing else.
\<close>

definition otherScripts :: "string \<Rightarrow> (state \<Rightarrow> state outcome) option" where
  "otherScripts g = (if g = ''getMockData'' then Some Returned else None)"

text \<open>
  The fine layer of the scenarios, as \<^verbatim>\<open>loadData\<close> creates it from two features:
  a rectangle inside the rectangle from (0, 0) to (10, 10), which shares the record of
  the region A, and a rectangle outside, which has no record.
\<close>

definition scenarioLayer :: "(feature \<times> style) list" where
  "scenarioLayer =
     [(rectangle ''A'' (2, 2) (4, 4)\<lparr>labelMarker := Some 0\<rparr>,
       \<lparr>fillColor = ''#f97316'', weight = 1, opacity = 1, color = ''#eee'',
        dashArray = Some [], fillOpacity = 8 / 10, interactive = None\<rparr>),
      (rectangle ''B'' (20, 20) (30, 30)\<lparr>labelMarker := Some 1\<rparr>,
       \<lparr>fillColor = ''#ccc'', weight = 1, opacity = 1, color = ''#eee'',
        dashArray = None, fillOpacity = 2 / 10, interactive = None\<rparr>)]"

text \<open>The loaded state of the scenario store after a focus on the region \<open>g\<close>.\<close>

definition focusState :: "feature \<Rightarrow> state" where
  "focusState g = loadedState scenarioData []\<lparr>activeBoroughGeometry := Some g\<rparr>"

section \<open>Properties of the price ramp\<close>

text \<open>
  Claim C3. For every price \<open>v\<close>, \<^verbatim>\<open>getPriceColor\<close> returns the colour of the first
  break point, taken from the highest threshold (1500000) down to the lowest (300000),
  that \<open>v\<close> strictly exceeds. A value equal to a threshold falls into the next lower
  bucket, and every \<open>v\<close> at or below 300000 gets the palest colour \<^verbatim>\<open>#fed7aa\<close>.
\<close>

theorem getPriceColor_buckets:
  "getPriceColor v = bucketColor v
   \<and> (v \<le> 300000 \<longrightarrow> getPriceColor v = ''#fed7aa'')
   \<and> getPriceColor 1500000 = ''#7c2d12''
   \<and> getPriceColor 1200000 = ''#c2410c''
   \<and> getPriceColor 1000000 = ''#ea580c''
   \<and> getPriceColor 800000 = ''#f97316''
   \<and> getPriceColor 600000 = ''#fb923c''
   \<and> getPriceColor 450000 = ''#fdba74''
   \<and> getPriceColor 300000 = ''#fed7aa''"
  by (simp add: getPriceColor_def bucketColor_def price_breaks_def palest_def)

theorem getPriceColor_buckets_witness:
  "(300000 :: num) \<le> 300000 \<and> getPriceColor 300000 = ''#fed7aa''
   \<and> bucketColor 300000 = ''#fed7aa''"
proof -
  have "getPriceColor 300000 = bucketColor 300000"
    and "(300000 :: num) \<le> 300000 \<longrightarrow> getPriceColor 300000 = ''#fed7aa''"
    using getPriceColor_buckets [of 300000] by blast+
  then show ?thesis by simp
qed

section \<open>Properties of the style of a region\<close>

lemma foldl_add_sum: "foldl (+) a xs = a + sum_list xs" for a :: num
  by (induction xs arbitrary: a) (simp_all add: add.assoc)

lemma resolveValue_all:
  "prices data (currentYear st) = Some p \<Longrightarrow> currentType st = ''all'' \<Longrightarrow>
   resolveValue st data = (if p = [] then 0 else sum_list (map snd p) / of_nat (length p))"
  by (simp add: resolveValue_def foldl_add_sum Let_def)

lemma resolveValue_type:
  "prices data (currentYear st) = Some p \<Longrightarrow> currentType st \<noteq> ''all'' \<Longrightarrow>
   resolveValue st data = (case map_of p (currentType st) of None \<Rightarrow> 0 | Some v \<Rightarrow> v)"
  by (simp add: resolveValue_def orZero_def split: option.splits)

lemma resolveValue_no_year:
  "prices data (currentYear st) = None \<Longrightarrow> resolveValue st data = 0"
  by (simp add: resolveValue_def)

lemma getData_own: "boroughData st n = Some r \<Longrightarrow> getData st n = OwnRecord r"
  by (simp add: getData_def)

lemma getData_none:
  "boroughData st n = None \<Longrightarrow> n \<notin> set objectPrototypeKeys \<Longrightarrow> getData st n = NoProperty"
  by (simp add: getData_def)

lemma getData_inherited:
  "boroughData st n = None \<Longrightarrow> n \<in> set objectPrototypeKeys
     \<Longrightarrow> getData st n = InheritedMember"
  by (simp add: getData_def)

lemma style_price:
  "currentMode st = ''price'' \<Longrightarrow> boroughData st (name f) = Some data \<Longrightarrow>
   getFeatureStyle st f d w b fo =
     Inr \<lparr>fillColor =
            (if resolveValue st data > maxPrice st then ''#431407''
             else getPriceColor (resolveValue st data)),
          weight = w, opacity = 1, color = b, dashArray = Some [], fillOpacity = fo,
          interactive = None\<rparr>"
  by (simp add: getFeatureStyle_def getData_own Let_def)

lemma loadedState_mode: "currentMode (loadedState data ps) = ''price''"
  by (simp add: loadedState_def)

lemma loadedState_fields:
  "currentYear (loadedState data ps) = 2025"
  "currentType (loadedState data ps) = ''all''"
  "maxPrice (loadedState data ps) = 5000000"
  "boroughData (loadedState data ps) = data"
  "activeBoroughGeometry (loadedState data ps) = None"
  "postcodeLayer (loadedState data ps) = ps"
  by (simp_all add: loadedState_def)

lemma scenario_value:
  "resolveValue (loadedState scenarioData ps) scenarioRecord = 700000"
  by (simp add: resolveValue_def loadedState_fields scenarioRecord_def Let_def)

lemma scenario_value_ceiling:
  "resolveValue (loadedState scenarioData ps\<lparr>maxPrice := m\<rparr>) scenarioRecord = 700000"
  by (simp add: resolveValue_def loadedState_fields scenarioRecord_def Let_def)

lemma scenario_record:
  "boroughData (loadedState scenarioData ps) (name (region ''A'')) = Some scenarioRecord"
  "boroughData (loadedState scenarioData ps\<lparr>maxPrice := m\<rparr>) (name (region ''A''))
     = Some scenarioRecord"
  by (simp_all add: loadedState_fields scenarioData_def region_def)

text \<open>
  Claim C7. In price mode the resolved value is 0 when the record has no prices for the
  selected year. With property type \<^verbatim>\<open>all\<close> it is the arithmetic mean of the entries
  present for the year, and 0 when there is none; with a specific type it is that type's
  entry, and 0 when the type is absent. A value within the price ceiling is coloured by
  its bucket. For year 2025 and the prices \<^verbatim>\<open>{detached: 900000, flat: 500000}\<close> the
  value is 700000 and the fill colour is \<^verbatim>\<open>#f97316\<close>.
\<close>

theorem resolveValue_price:
  "(prices data (currentYear st) = None \<longrightarrow> resolveValue st data = 0)
   \<and> (prices data (currentYear st) = Some p \<and> currentType st = ''all'' \<longrightarrow>
        resolveValue st data =
          (if p = [] then 0 else sum_list (map snd p) / of_nat (length p)))
   \<and> (prices data (currentYear st) = Some p \<and> currentType st \<noteq> ''all'' \<longrightarrow>
        resolveValue st data =
          (case map_of p (currentType st) of None \<Rightarrow> 0 | Some v \<Rightarrow> v))
   \<and> (currentMode st = ''price'' \<and> boroughData st (name f) = Some data
        \<and> resolveValue st data \<le> maxPrice st \<longrightarrow>
        getFeatureStyle st f d w b fo =
          Inr \<lparr>fillColor = getPriceColor (resolveValue st data), weight = w, opacity = 1,
               color = b, dashArray = Some [], fillOpacity = fo, interactive = None\<rparr>)
   \<and> resolveValue (loadedState scenarioData []) scenarioRecord = 700000
   \<and> getPriceColor 700000 = ''#f97316''
   \<and> getFeatureStyle (loadedState scenarioData []) (region ''A'') d w b fo =
        Inr \<lparr>fillColor = ''#f97316'', weight = w, opacity = 1, color = b,
             dashArray = Some [], fillOpacity = fo, interactive = None\<rparr>"
proof -
  have "getFeatureStyle (loadedState scenarioData []) (region ''A'') d w b fo =
        Inr \<lparr>fillColor = ''#f97316'', weight = w, opacity = 1, color = b,
             dashArray = Some [], fillOpacity = fo, interactive = None\<rparr>"
    by (simp add: style_price [OF loadedState_mode scenario_record(1)] loadedState_fields
        scenario_value getPriceColor_def)
  then show ?thesis
    by (simp add: resolveValue_no_year resolveValue_all resolveValue_type style_price
        scenario_value getPriceColor_def)
qed

theorem resolveValue_price_witness:
  "resolveValue (loadedState scenarioData []) scenarioRecord = (900000 + 500000) / 2
   \<and> resolveValue (loadedState scenarioData []\<lparr>currentType := ''flat''\<rparr>) scenarioRecord
       = 500000
   \<and> resolveValue (loadedState scenarioData []\<lparr>currentType := ''semi''\<rparr>) scenarioRecord
       = 0
   \<and> resolveValue (loadedState scenarioData []\<lparr>currentYear := 2020\<rparr>) scenarioRecord = 0"
proof -
  let ?p = "[(''detached'', 900000 :: num), (''flat'', 500000)]"
  let ?s = "loadedState scenarioData []"
  have a: "prices scenarioRecord (currentYear ?s) = Some ?p \<and> currentType ?s = ''all''"
    by (simp add: loadedState_fields scenarioRecord_def)
  have b: "prices scenarioRecord (currentYear (?s\<lparr>currentType := ''flat''\<rparr>)) = Some ?p
      \<and> currentType (?s\<lparr>currentType := ''flat''\<rparr>) \<noteq> ''all''"
    by (simp add: loadedState_fields scenarioRecord_def)
  have c: "prices scenarioRecord (currentYear (?s\<lparr>currentType := ''semi''\<rparr>)) = Some ?p
      \<and> currentType (?s\<lparr>currentType := ''semi''\<rparr>) \<noteq> ''all''"
    by (simp add: loadedState_fields scenarioRecord_def)
  have e: "prices scenarioRecord (currentYear (?s\<lparr>currentYear := 2020\<rparr>)) = None"
    by (simp add: scenarioRecord_def)
  show ?thesis
    using a b c e
      resolveValue_price [of scenarioRecord ?s ?p]
      resolveValue_price [of scenarioRecord "?s\<lparr>currentType := ''flat''\<rparr>" ?p]
      resolveValue_price [of scenarioRecord "?s\<lparr>currentType := ''semi''\<rparr>" ?p]
      resolveValue_price [of scenarioRecord "?s\<lparr>currentYear := 2020\<rparr>" ?p]
    by simp
qed

text \<open>
  Claim C4. In price mode, for every region with a record whose resolved value strictly
  exceeds the price ceiling \<^verbatim>\<open>maxPrice\<close>, the fill colour is the darkest colour
  \<^verbatim>\<open>#431407\<close>, whatever the bucket of the value. With the ceiling at 600000 and the
  resolved value 700000 the fill colour is \<^verbatim>\<open>#431407\<close>, where the bucket colour of
  700000 is \<^verbatim>\<open>#f97316\<close>.
\<close>

theorem price_overflow:
  "(currentMode st = ''price'' \<and> boroughData st (name f) = Some data
      \<and> resolveValue st data > maxPrice st \<longrightarrow>
      getFeatureStyle st f d w b fo =
        Inr \<lparr>fillColor = ''#431407'', weight = w, opacity = 1, color = b,
             dashArray = Some [], fillOpacity = fo, interactive = None\<rparr>)
   \<and> resolveValue (loadedState scenarioData []\<lparr>maxPrice := 600000\<rparr>) scenarioRecord = 700000
   \<and> getFeatureStyle (loadedState scenarioData []\<lparr>maxPrice := 600000\<rparr>)
        (region ''A'') d w b fo =
        Inr \<lparr>fillColor = ''#431407'', weight = w, opacity = 1, color = b,
             dashArray = Some [], fillOpacity = fo, interactive = None\<rparr>
   \<and> getPriceColor 700000 = ''#f97316''"
proof -
  have "getFeatureStyle (loadedState scenarioData []\<lparr>maxPrice := 600000\<rparr>)
        (region ''A'') d w b fo =
        Inr \<lparr>fillColor = ''#431407'', weight = w, opacity = 1, color = b,
             dashArray = Some [], fillOpacity = fo, interactive = None\<rparr>"
    by (simp add: style_price [OF _ scenario_record(2)] loadedState_mode
        scenario_value_ceiling)
  then show ?thesis
    by (simp add: style_price scenario_value_ceiling getPriceColor_def)
qed

theorem price_overflow_witness:
  "currentMode (loadedState scenarioData []\<lparr>maxPrice := 1000\<rparr>) = ''price''
   \<and> boroughData (loadedState scenarioData []\<lparr>maxPrice := 1000\<rparr>) (name (region ''A''))
       = Some scenarioRecord
   \<and> resolveValue (loadedState scenarioData []\<lparr>maxPrice := 1000\<rparr>) scenarioRecord
       > maxPrice (loadedState scenarioData []\<lparr>maxPrice := 1000\<rparr>)
   \<and> getFeatureStyle (loadedState scenarioData []\<lparr>maxPrice := 1000\<rparr>)
        (region ''A'') (8 / 10) 2 ''white'' (6 / 10) =
        Inr \<lparr>fillColor = ''#431407'', weight = 2, opacity = 1, color = ''white'',
             dashArray = Some [], fillOpacity = 6 / 10, interactive = None\<rparr>"
proof -
  let ?s = "loadedState scenarioData []\<lparr>maxPrice := 1000\<rparr>"
  have h: "currentMode ?s = ''price'' \<and> boroughData ?s (name (region ''A'')) = Some scenarioRecord
      \<and> resolveValue ?s scenarioRecord > maxPrice ?s"
    by (simp add: loadedState_mode scenario_record scenario_value_ceiling)
  then show ?thesis
    using price_overflow [of ?s "region ''A''" scenarioRecord "8 / 10" 2 "''white''" "6 / 10"]
    by blast
qed

text \<open>
  What \<^verbatim>\<open>getFeatureStyle\<close> does on missing data, for a region whose name is not a
  member of the object prototype: with no record it returns the neutral style, light
  grey \<^verbatim>\<open>#ccc\<close> at fill opacity 0.2; with a record that lacks the selected year, or
  the selected property type, the value is 0 and the style is the ordinary one of price
  mode, with the colour of the value 0.
\<close>

lemma getFeatureStyle_missing_data:
  "(boroughData st (name f) = None \<and> name f \<notin> set objectPrototypeKeys \<longrightarrow>
      getFeatureStyle st f d w b fo =
        Inr \<lparr>fillColor = ''#ccc'', weight = w, opacity = 1, color = b, dashArray = None,
             fillOpacity = 2 / 10, interactive = None\<rparr>)
   \<and> (prices data (currentYear st) = None \<longrightarrow> resolveValue st data = 0)
   \<and> (prices data (currentYear st) = Some p \<and> currentType st \<noteq> ''all''
        \<and> map_of p (currentType st) = None \<longrightarrow> resolveValue st data = 0)
   \<and> (currentMode st = ''price'' \<and> boroughData st (name f) = Some data
        \<and> resolveValue st data = 0 \<longrightarrow>
        getFeatureStyle st f d w b fo =
          Inr \<lparr>fillColor = (if 0 > maxPrice st then ''#431407'' else ''#fed7aa''),
               weight = w, opacity = 1, color = b, dashArray = Some [], fillOpacity = fo,
               interactive = None\<rparr>)"
  by (simp add: getFeatureStyle_def getData_own getData_none Let_def resolveValue_no_year
      resolveValue_type getPriceColor_def)

text \<open>
  Claim C8 says that \<^verbatim>\<open>getFeatureStyle\<close> returns the neutral style for every region
  with no record, and never fails on missing data. The test \<^verbatim>\<open>!data\<close> is meant to
  do so, and misses the names that the object \<^verbatim>\<open>boroughData\<close> inherits: for the
  region named \<^verbatim>\<open>constructor\<close>, with no record stored, the lookup finds the inherited
  function, and in price mode the read of \<^verbatim>\<open>data.prices[currentYear]\<close> throws a
  TypeError. A region named \<^verbatim>\<open>B\<close>, with no record either, gets the neutral style.
\<close>

theorem getFeatureStyle_inherited_name:
  "boroughData (loadedState (\<lambda>n. None) []) (name (region ''constructor'')) = None
   \<and> currentMode (loadedState (\<lambda>n. None) []) = ''price''
   \<and> getFeatureStyle (loadedState (\<lambda>n. None) []) (region ''constructor'')
        (9 / 10) 1 ''#eee'' (8 / 10) = Inl (TypeError ''data.prices is undefined'')
   \<and> stylePostcode (loadedState (\<lambda>n. None) []) None (region ''constructor'')
        = Inl (TypeError ''data.prices is undefined'')
   \<and> getFeatureStyle (loadedState (\<lambda>n. None) []) (region ''B'')
        (9 / 10) 1 ''#eee'' (8 / 10) =
        Inr \<lparr>fillColor = ''#ccc'', weight = 1, opacity = 1, color = ''#eee'',
             dashArray = None, fillOpacity = 2 / 10, interactive = None\<rparr>"
  by (simp add: getFeatureStyle_def stylePostcode_def getData_def objectPrototypeKeys_def
      loadedState_fields loadedState_mode region_def)

section \<open>Properties of the legend\<close>

lemma ramp_break_points_eq:
  "ramp_break_points = [0, 300000, 450000, 600000, 800000, 1000000, 1200000, 1500000]"
  by (simp add: ramp_break_points_def price_breaks_def)

lemma legend_swatches:
  "currentMode st = ''price'' \<Longrightarrow>
   map fst (updateLegend st) =
     [''#fed7aa'', ''#fdba74'', ''#fb923c'', ''#f97316'', ''#ea580c'', ''#c2410c'',
      ''#7c2d12'', ''#431407'']"
  by (simp add: updateLegend_def legend_grades_def getPriceColor_def upt_rec [of 0]
      upt_rec [of "Suc _"] upt_rec [of "numeral _"] comp_def)

lemma bucket_swatch:
  assumes "i < 8" "ramp_break_points ! i < v"
    "i < 7 \<longrightarrow> v \<le> ramp_break_points ! (i + 1)"
  shows "getPriceColor v =
     [''#fed7aa'', ''#fdba74'', ''#fb923c'', ''#f97316'', ''#ea580c'', ''#c2410c'',
      ''#7c2d12'', ''#431407''] ! i"
proof -
  have "i \<in> {0, 1, 2, 3, 4, 5, 6, 7}"
    using assms(1) by auto
  then show ?thesis
    using assms(2,3) by (auto simp: ramp_break_points_eq getPriceColor_def)
qed



text \<open>
  Claim C1 says that every swatch of the price legend is the colour that the style of a
  region has for a value of that bucket. \<^verbatim>\<open>updateLegend\<close> does not read the price
  ceiling: with \<^verbatim>\<open>maxPrice\<close> at 600000, the value 700000 is in the bucket above
  600000, whose swatch is \<^verbatim>\<open>#f97316\<close>, and the region is filled with \<^verbatim>\<open>#431407\<close>.
\<close>

theorem legend_ignores_ceiling:
  "currentMode (loadedState scenarioData []\<lparr>maxPrice := 600000\<rparr>) = ''price''
   \<and> resolveValue (loadedState scenarioData []\<lparr>maxPrice := 600000\<rparr>) scenarioRecord = 700000
   \<and> ramp_break_points ! 3 < 700000
   \<and> 700000 \<le> ramp_break_points ! 4
   \<and> fst (updateLegend (loadedState scenarioData []\<lparr>maxPrice := 600000\<rparr>) ! 3) = ''#f97316''
   \<and> getFeatureStyle (loadedState scenarioData []\<lparr>maxPrice := 600000\<rparr>) (region ''A'')
        (8 / 10) 2 ''white'' (6 / 10) =
        Inr \<lparr>fillColor = ''#431407'', weight = 2, opacity = 1, color = ''white'',
             dashArray = Some [], fillOpacity = 6 / 10, interactive = None\<rparr>"
proof -
  let ?s = "loadedState scenarioData []\<lparr>maxPrice := 600000\<rparr>"
  have m: "currentMode ?s = ''price''"
    by (simp add: loadedState_mode)
  have "length (updateLegend ?s) = 8"
    using m by (simp add: updateLegend_def legend_grades_def)
  then have "fst (updateLegend ?s ! 3) = map fst (updateLegend ?s) ! 3"
    by simp
  then have l: "fst (updateLegend ?s ! 3) = ''#f97316''"
    by (simp add: legend_swatches [OF m])
  have g: "getFeatureStyle ?s (region ''A'') (8 / 10) 2 ''white'' (6 / 10) =
        Inr \<lparr>fillColor = ''#431407'', weight = 2, opacity = 1, color = ''white'',
             dashArray = Some [], fillOpacity = 6 / 10, interactive = None\<rparr>"
    by (simp add: style_price [OF m scenario_record(2)] scenario_value_ceiling)
  show ?thesis
    using m l g by (simp add: scenario_value_ceiling ramp_break_points_eq)
qed

text \<open>
  Claim C1, amended. In price mode \<^verbatim>\<open>updateLegend\<close> produces exactly 8 entries, in
  the order of the 8 break points of the price ramp from the lowest to the highest, and
  the swatch of entry \<open>i\<close> is \<^verbatim>\<open>getPriceColor\<close> of break point \<open>i\<close> plus one. So the
  swatch is the ramp colour of every value of that bucket, above break point \<open>i\<close> and at
  most the next one, and it is the fill colour of every region with a record whose value
  is in that bucket and does not exceed the price ceiling. (The legend computes the
  swatches from its own grades 400000 and 500000 where the ramp has 300000 and 450000;
  the colours are the same.)
\<close>

theorem updateLegend_price:
  assumes "currentMode st = ''price''"
  shows "length (updateLegend st) = 8
    \<and> length ramp_break_points = 8
    \<and> sorted_wrt (<) ramp_break_points
    \<and> map fst (updateLegend st) = map (\<lambda>b. getPriceColor (b + 1)) ramp_break_points
    \<and> (\<forall>i v. i < 8 \<and> ramp_break_points ! i < v
          \<and> (i < 7 \<longrightarrow> v \<le> ramp_break_points ! (i + 1))
          \<longrightarrow> fst (updateLegend st ! i) = getPriceColor v)
    \<and> (\<forall>i f data d w b fo. i < 8 \<and> boroughData st (name f) = Some data
          \<and> ramp_break_points ! i < resolveValue st data
          \<and> (i < 7 \<longrightarrow> resolveValue st data \<le> ramp_break_points ! (i + 1))
          \<and> resolveValue st data \<le> maxPrice st
          \<longrightarrow> getFeatureStyle st f d w b fo =
                Inr \<lparr>fillColor = fst (updateLegend st ! i), weight = w, opacity = 1,
                     color = b, dashArray = Some [], fillOpacity = fo,
                     interactive = None\<rparr>)"
proof -
  have len: "length (updateLegend st) = 8"
    using assms by (simp add: updateLegend_def legend_grades_def)
  have sw: "map fst (updateLegend st) = map (\<lambda>b. getPriceColor (b + 1)) ramp_break_points"
    unfolding legend_swatches [OF assms] ramp_break_points_eq
    by (simp add: getPriceColor_def)
  have bucket: "fst (updateLegend st ! i) = getPriceColor v"
    if "i < 8" "ramp_break_points ! i < v"
      "i < 7 \<longrightarrow> v \<le> ramp_break_points ! (i + 1)"
    for i v
  proof -
    have "fst (updateLegend st ! i) = map fst (updateLegend st) ! i"
      using that(1) len by simp
    then show ?thesis
      using bucket_swatch [OF that] legend_swatches [OF assms] by simp
  qed
  have rendered: "getFeatureStyle st f d w b fo =
      Inr \<lparr>fillColor = fst (updateLegend st ! i), weight = w, opacity = 1, color = b,
           dashArray = Some [], fillOpacity = fo, interactive = None\<rparr>"
    if "i < 8" "boroughData st (name f) = Some data"
      "ramp_break_points ! i < resolveValue st data"
      "i < 7 \<longrightarrow> resolveValue st data \<le> ramp_break_points ! (i + 1)"
      "resolveValue st data \<le> maxPrice st"
    for i f data d w b fo
    using that(5) bucket [OF that(1,3,4)]
    by (simp add: style_price [OF assms that(2)])
  have points: "length ramp_break_points = 8 \<and> sorted_wrt (<) ramp_break_points"
    by (simp add: ramp_break_points_eq)
  show ?thesis
    using len points sw bucket rendered by blast
qed

theorem updateLegend_price_witness:
  "currentMode (loadedState scenarioData []) = ''price''
   \<and> length (updateLegend (loadedState scenarioData [])) = 8
   \<and> fst (updateLegend (loadedState scenarioData []) ! 4) = getPriceColor 900000
   \<and> getFeatureStyle (loadedState scenarioData []) (region ''A'') (8 / 10) 2 ''white'' (6 / 10) =
       Inr \<lparr>fillColor = fst (updateLegend (loadedState scenarioData []) ! 3), weight = 2,
            opacity = 1, color = ''white'', dashArray = Some [], fillOpacity = 6 / 10,
            interactive = None\<rparr>"
proof -
  let ?s = "loadedState scenarioData []"
  have m: "currentMode ?s = ''price''"
    by (rule loadedState_mode)
  have a: "(4 :: nat) < 8 \<and> ramp_break_points ! 4 < (900000 :: num)
     \<and> ((4 :: nat) < 7 \<longrightarrow> (900000 :: num) \<le> ramp_break_points ! (4 + 1))"
    by (simp add: ramp_break_points_eq)
  have b: "(3 :: nat) < 8 \<and> boroughData ?s (name (region ''A'')) = Some scenarioRecord
     \<and> ramp_break_points ! 3 < resolveValue ?s scenarioRecord
     \<and> ((3 :: nat) < 7 \<longrightarrow> resolveValue ?s scenarioRecord \<le> ramp_break_points ! (3 + 1))
     \<and> resolveValue ?s scenarioRecord \<le> maxPrice ?s"
    by (simp add: ramp_break_points_eq scenario_record scenario_value loadedState_fields(3))
  show ?thesis
    using m a b updateLegend_price [OF m] by blast
qed


section \<open>Properties of the continuous ramp\<close>

lemma round_between:
  fixes x :: num
  assumes "of_int lo \<le> x" "x \<le> of_int hi"
  shows "lo \<le> round x \<and> round x \<le> hi"
  using round_mono [OF assms(1)] round_mono [OF assms(2)] by simp

lemma channel_between:
  fixes v :: num
  assumes "0 \<le> v" "v \<le> 1"
  shows "min s e \<le> round (of_int s + (of_int e - of_int s) * v)
    \<and> round (of_int s + (of_int e - of_int s) * v) \<le> max s e"
proof (cases "s \<le> e")
  case True
  then have d: "(0::num) \<le> of_int e - of_int s" by simp
  have "(of_int e - of_int s) * v \<le> (of_int e - of_int s) * 1"
    using d assms(2) by (rule mult_left_mono[rotated])
  moreover have "0 \<le> (of_int e - of_int s) * v"
    using d assms(1) by simp
  ultimately have "of_int s \<le> of_int s + (of_int e - of_int s) * v"
    and "of_int s + (of_int e - of_int s) * v \<le> of_int e"
    by simp_all
  from round_between [OF this] True show ?thesis by simp
next
  case False
  then have d: "(0::num) \<le> of_int s - of_int e" by simp
  have "(of_int s - of_int e) * v \<le> (of_int s - of_int e) * 1"
    using d assms(2) by (rule mult_left_mono[rotated])
  moreover have "0 \<le> (of_int s - of_int e) * v"
    using d assms(1) by simp
  ultimately have "of_int e \<le> of_int s + (of_int e - of_int s) * v"
    and "of_int s + (of_int e - of_int s) * v \<le> of_int s"
    by (simp_all add: algebra_simps)
  from round_between [OF this] False show ?thesis by simp
qed


lemmas scale_defs = getCrimeColor_def getCentralColor_def getCultureColor_def
  getScaleColor_def scaleChannels_def showInt_def digits.simps digitChar_def

text \<open>
  Claim C9 says that the continuous ramp clamps its input to the interval from 0 to 1.
  \<^verbatim>\<open>getScaleColor\<close> does not: at the value 2 the crime ramp is not its end colour, and
  at the value -1 it is not white.
\<close>

theorem continuous_ramp_unclamped:
  "(2 :: num) \<ge> 1
   \<and> getCrimeColor 2 = ''rgb(185, -179, -179)''
   \<and> getCrimeColor 1 = ''rgb(220, 38, 38)''
   \<and> getCrimeColor 2 \<noteq> getCrimeColor 1
   \<and> (- 1 :: num) \<le> 0
   \<and> getCrimeColor (- 1) = ''rgb(290, 472, 472)''
   \<and> getCrimeColor (- 1) \<noteq> ''rgb(255, 255, 255)''"
  by (simp add: scale_defs)

text \<open>
  Claim C9, amended. The continuous ramp does not clamp: for every value each channel is
  \<^verbatim>\<open>round(start + (end - start) * value)\<close>. At the value 1 the result is the end colour
  of the mode, at the value 0 it is white, and for a value from 0 to 1 every channel lies
  between the start channel and the end channel.
\<close>

theorem continuous_ramp:
  "scaleChannels v (s0, s1, s2) (e0, e1, e2) =
     (round (s0 + (e0 - s0) * v), round (s1 + (e1 - s1) * v), round (s2 + (e2 - s2) * v))
   \<and> getScaleColor v (s0, s1, s2) (e0, e1, e2) =
       ''rgb('' @ showInt (round (s0 + (e0 - s0) * v)) @ '', ''
         @ showInt (round (s1 + (e1 - s1) * v)) @ '', ''
         @ showInt (round (s2 + (e2 - s2) * v)) @ '')''
   \<and> getCrimeColor 1 = ''rgb(220, 38, 38)''
   \<and> getCentralColor 1 = ''rgb(37, 99, 235)''
   \<and> getCultureColor 1 = ''rgb(217, 119, 6)''
   \<and> getCrimeColor 0 = ''rgb(255, 255, 255)''
   \<and> getCentralColor 0 = ''rgb(255, 255, 255)''
   \<and> getCultureColor 0 = ''rgb(255, 255, 255)''
   \<and> (0 \<le> v \<and> v \<le> 1
        \<and> scaleChannels v (of_int a0, of_int a1, of_int a2) (of_int b0, of_int b1, of_int b2)
            = (r, g, b) \<longrightarrow>
        min a0 b0 \<le> r \<and> r \<le> max a0 b0 \<and> min a1 b1 \<le> g \<and> g \<le> max a1 b1
        \<and> min a2 b2 \<le> b \<and> b \<le> max a2 b2)"
proof -
  have ends: "getCrimeColor 1 = ''rgb(220, 38, 38)''"
    "getCentralColor 1 = ''rgb(37, 99, 235)''"
    "getCultureColor 1 = ''rgb(217, 119, 6)''"
    "getCrimeColor 0 = ''rgb(255, 255, 255)''"
    "getCentralColor 0 = ''rgb(255, 255, 255)''"
    "getCultureColor 0 = ''rgb(255, 255, 255)''"
    by (simp_all add: scale_defs)
  have range: "min a0 b0 \<le> r \<and> r \<le> max a0 b0 \<and> min a1 b1 \<le> g \<and> g \<le> max a1 b1
        \<and> min a2 b2 \<le> b \<and> b \<le> max a2 b2"
    if "0 \<le> v" "v \<le> 1"
      "scaleChannels v (of_int a0, of_int a1, of_int a2) (of_int b0, of_int b1, of_int b2)
         = (r, g, b)"
  proof -
    have "r = round (of_int a0 + (of_int b0 - of_int a0) * v)"
      "g = round (of_int a1 + (of_int b1 - of_int a1) * v)"
      "b = round (of_int a2 + (of_int b2 - of_int a2) * v)"
      using that(3) by (simp_all add: scaleChannels_def)
    then show ?thesis
      using channel_between [OF that(1,2)] by blast
  qed
  show ?thesis
    using ends range by (simp add: scaleChannels_def getScaleColor_def)
qed

theorem continuous_ramp_witness:
  "(0 :: num) \<le> 1 / 2 \<and> (1 / 2 :: num) \<le> 1
   \<and> scaleChannels (1 / 2) (of_int 255, of_int 255, of_int 255)
        (of_int 220, of_int 38, of_int 38) = (238, 147, 147)
   \<and> min 255 220 \<le> (238 :: int) \<and> (238 :: int) \<le> max 255 220"
proof -
  have h: "(0 :: num) \<le> 1 / 2 \<and> (1 / 2 :: num) \<le> 1
     \<and> scaleChannels (1 / 2) (of_int 255, of_int 255, of_int 255)
        (of_int 220, of_int 38, of_int 38) = (238, 147, 147)"
    by (simp add: scaleChannels_def round_def)
  then show ?thesis
    using continuous_ramp [of "1 / 2" _ _ _ _ _ _ 255 255 255 220 38 38 238 147 147]
    by blast
qed

section \<open>Properties of the zoom handler\<close>

lemma foldl_addLayer:
  "foldl addLayer st ms =
     st\<lparr>mapLayers := mapLayers st \<union> set ms, mapCalls := mapCalls st @ map AddLayer ms\<rparr>"
  by (induction ms arbitrary: st) (simp_all add: addLayer_def)

lemma foldl_removeLayer:
  "foldl removeLayer st ms =
     st\<lparr>mapLayers := mapLayers st - set ms, mapCalls := mapCalls st @ map RemoveLayer ms\<rparr>"
proof (induction ms arbitrary: st)
  case Nil
  show ?case by simp
next
  case (Cons a ms)
  have eq: "mapLayers st - {a} - set ms = mapLayers st - insert a (set ms)"
    by blast
  have "foldl removeLayer st (a # ms) = foldl removeLayer (removeLayer st a) ms"
    by simp
  also have "\<dots> = (removeLayer st a)\<lparr>mapLayers := mapLayers (removeLayer st a) - set ms,
      mapCalls := mapCalls (removeLayer st a) @ map RemoveLayer ms\<rparr>"
    by (rule Cons.IH)
  also have "\<dots> = st\<lparr>mapLayers := mapLayers st - set (a # ms),
      mapCalls := mapCalls st @ map RemoveLayer (a # ms)\<rparr>"
    using eq by (simp add: removeLayer_def)
  finally show ?case .
qed

lemma labelMarkers_markers: "l \<in> set (labelMarkers st) \<Longrightarrow> \<exists>m. l = Marker m"
  by (auto simp: labelMarkers_def split: option.splits)

lemma labelMarkers_not_layers:
  "BoroughLayer \<notin> set (labelMarkers st)" "PostcodeLayer \<notin> set (labelMarkers st)"
  using labelMarkers_markers by blast+

lemma labelMarkers_cong:
  "postcodeLayer st' = postcodeLayer st \<Longrightarrow> labelMarkers st' = labelMarkers st"
  by (simp add: labelMarkers_def)

lemma handleZoomChange_fine:
  "hasLayer (handleZoomChange st z) PostcodeLayer \<longleftrightarrow> z \<ge> 11"
  using labelMarkers_not_layers
  by (simp add: handleZoomChange_def Let_def MAP_ZOOM_SELECTED_def hasLayer_def
      foldl_addLayer foldl_removeLayer addLayer_def removeLayer_def)

lemma handleZoomChange_coarse:
  "hasLayer (handleZoomChange st z) BoroughLayer \<longleftrightarrow> \<not> z \<ge> 11"
  using labelMarkers_not_layers
  by (simp add: handleZoomChange_def Let_def MAP_ZOOM_SELECTED_def hasLayer_def
      foldl_addLayer foldl_removeLayer addLayer_def removeLayer_def)

lemma handleZoomChange_same_side:
  assumes "hasLayer st PostcodeLayer \<longleftrightarrow> z \<ge> 11" "hasLayer st BoroughLayer \<longleftrightarrow> \<not> z \<ge> 11"
  shows "handleZoomChange st z = st\<lparr>currentZoom := z\<rparr>"
  using assms
  by (simp add: handleZoomChange_def Let_def MAP_ZOOM_SELECTED_def hasLayer_def)

lemma reachable_one_layer:
  assumes "hasLayer st0 BoroughLayer" "\<not> hasLayer st0 PostcodeLayer"
  shows "hasLayer (foldl handleZoomChange st0 zs) BoroughLayer
     \<longleftrightarrow> \<not> hasLayer (foldl handleZoomChange st0 zs) PostcodeLayer"
proof (cases zs rule: rev_cases)
  case Nil
  then show ?thesis using assms by simp
next
  case (snoc ys y)
  then show ?thesis
    by (simp add: handleZoomChange_fine handleZoomChange_coarse)
qed

text \<open>
  Claim C5. From a state in which the coarse layer is mounted and the fine layer is not
  (the state that \<^verbatim>\<open>loadData\<close> leaves), after each zoom notification of any sequence
  exactly one of the two layers is mounted: the fine layer if and only if the notified
  level is at least 11, the coarse layer otherwise. A notification whose level is on the
  side of the layer that is mounted changes nothing but \<^verbatim>\<open>currentZoom\<close>: it mounts
  nothing and unmounts nothing.
\<close>

theorem zoom_one_layer_mounted:
  assumes "hasLayer st0 BoroughLayer" "\<not> hasLayer st0 PostcodeLayer"
  shows "(\<forall>zs z. (hasLayer (foldl handleZoomChange st0 (zs @ [z])) PostcodeLayer \<longleftrightarrow> z \<ge> 11)
           \<and> (hasLayer (foldl handleZoomChange st0 (zs @ [z])) BoroughLayer \<longleftrightarrow> \<not> z \<ge> 11))
    \<and> (\<forall>zs z. (hasLayer (foldl handleZoomChange st0 zs) PostcodeLayer \<longleftrightarrow> z \<ge> 11) \<longrightarrow>
           handleZoomChange (foldl handleZoomChange st0 zs) z
             = (foldl handleZoomChange st0 zs)\<lparr>currentZoom := z\<rparr>)"
proof -
  have step: "(hasLayer (foldl handleZoomChange st0 (zs @ [z])) PostcodeLayer \<longleftrightarrow> z \<ge> 11)
      \<and> (hasLayer (foldl handleZoomChange st0 (zs @ [z])) BoroughLayer \<longleftrightarrow> \<not> z \<ge> 11)"
    for zs z
    by (simp add: handleZoomChange_fine handleZoomChange_coarse)
  have same: "handleZoomChange (foldl handleZoomChange st0 zs) z
      = (foldl handleZoomChange st0 zs)\<lparr>currentZoom := z\<rparr>"
    if "hasLayer (foldl handleZoomChange st0 zs) PostcodeLayer \<longleftrightarrow> z \<ge> 11" for zs z
    using that reachable_one_layer [OF assms, of zs]
    by (intro handleZoomChange_same_side) simp_all
  show ?thesis
    using step same by blast
qed

lemma loadedState_coarse:
  "hasLayer (loadedState data ps) BoroughLayer" "\<not> hasLayer (loadedState data ps) PostcodeLayer"
  by (simp_all add: loadedState_def hasLayer_def)

theorem zoom_one_layer_mounted_witness:
  "hasLayer (loadedState scenarioData scenarioLayer) BoroughLayer
   \<and> \<not> hasLayer (loadedState scenarioData scenarioLayer) PostcodeLayer
   \<and> hasLayer (foldl handleZoomChange (loadedState scenarioData scenarioLayer) [10, 12])
       PostcodeLayer
   \<and> \<not> hasLayer (foldl handleZoomChange (loadedState scenarioData scenarioLayer) [10, 12])
       BoroughLayer
   \<and> handleZoomChange
       (foldl handleZoomChange (loadedState scenarioData scenarioLayer) [10, 12]) 12
       = (foldl handleZoomChange (loadedState scenarioData scenarioLayer) [10, 12])
           \<lparr>currentZoom := 12\<rparr>"
proof -
  let ?s = "loadedState scenarioData scenarioLayer"
  have c: "hasLayer ?s BoroughLayer" "\<not> hasLayer ?s PostcodeLayer"
    by (rule loadedState_coarse)+
  have a: "(hasLayer (foldl handleZoomChange ?s ([10] @ [12])) PostcodeLayer
        \<longleftrightarrow> (12 :: num) \<ge> 11)
      \<and> (hasLayer (foldl handleZoomChange ?s ([10] @ [12])) BoroughLayer
        \<longleftrightarrow> \<not> (12 :: num) \<ge> 11)"
    using zoom_one_layer_mounted [OF c] by blast
  have b: "(hasLayer (foldl handleZoomChange ?s [10, 12]) PostcodeLayer \<longleftrightarrow> (12 :: num) \<ge> 11)
      \<longrightarrow> handleZoomChange (foldl handleZoomChange ?s [10, 12]) 12
        = (foldl handleZoomChange ?s [10, 12])\<lparr>currentZoom := 12\<rparr>"
    using zoom_one_layer_mounted [OF c] by blast
  from a have a': "hasLayer (foldl handleZoomChange ?s [10, 12]) PostcodeLayer"
    "\<not> hasLayer (foldl handleZoomChange ?s [10, 12]) BoroughLayer"
    by simp_all
  with b have "handleZoomChange (foldl handleZoomChange ?s [10, 12]) 12
        = (foldl handleZoomChange ?s [10, 12])\<lparr>currentZoom := 12\<rparr>"
    by simp
  with a' c show ?thesis by blast
qed


section \<open>Properties of the focus filter\<close>

lemma fillColor_any_border:
  "map_sum id fillColor (getFeatureStyle st f d w b fo)
     = map_sum id fillColor (getFeatureStyle st f d' w' b' fo')"
  by (simp add: getFeatureStyle_def Let_def split: lookup.splits)

lemma getFeatureStyle_border:
  "getFeatureStyle st f d w b fo = Inr s \<Longrightarrow> weight s = w \<and> color s = b"
  by (auto simp: getFeatureStyle_def Let_def split: lookup.splits if_splits)

lemma focusState_fields:
  "activeBoroughGeometry (focusState g) = Some g"
  "currentMode (focusState g) = ''price''"
  "maxPrice (focusState g) = 5000000"
  "boroughData (focusState g) = scenarioData"
  "resolveValue (focusState g) scenarioRecord = 700000"
  by (simp_all add: focusState_def loadedState_fields loadedState_mode resolveValue_def
      scenarioRecord_def)

lemma focus_style_inside:
  "getFeatureStyle (focusState g) (rectangle ''A'' (2, 2) (4, 4)) d w b fo =
     Inr \<lparr>fillColor = ''#f97316'', weight = w, opacity = 1, color = b,
          dashArray = Some [], fillOpacity = fo, interactive = None\<rparr>"
  by (simp add: getFeatureStyle_def getData_def focusState_fields scenarioData_def
      rectangle_def getPriceColor_def)

lemma focus_style_outside:
  "getFeatureStyle (focusState g) (rectangle ''B'' (20, 20) (30, 30)) d w b fo =
     Inr \<lparr>fillColor = ''#ccc'', weight = w, opacity = 1, color = b,
          dashArray = None, fillOpacity = 2 / 10, interactive = None\<rparr>"
  by (simp add: getFeatureStyle_def getData_def objectPrototypeKeys_def focusState_fields
      scenarioData_def rectangle_def)

lemma boxTurf_outside:
  "booleanPointInPolygon boxTurf (center boxTurf (rectangle ''B'' (20, 20) (30, 30)))
     (rectangle ''A'' (0, 0) (10, 10)) = Inr False"
  by (simp add: boxTurf_def boxCenter_def boxContains_def boundingBox_def rectangle_def)

lemma boxTurf_inside:
  "booleanPointInPolygon boxTurf (center boxTurf (rectangle ''A'' (2, 2) (4, 4)))
     (rectangle ''A'' (0, 0) (10, 10)) = Inr True"
  by (simp add: boxTurf_def boxCenter_def boxContains_def boundingBox_def rectangle_def)

lemma boxTurf_degenerate:
  "booleanPointInPolygon boxTurf (center boxTurf (rectangle ''A'' (2, 2) (4, 4)))
     (sliver ''A'' (0, 0) (10, 10)) = Inl (LibraryError ''degenerate polygon'')"
  by (simp add: boxTurf_def boxCenter_def boxContains_def boundingBox_def rectangle_def
      sliver_def)

text \<open>
  Claim C6 says that under an active focus every fine region is either hidden (centroid
  outside the focus polygon) or emphasised (centroid inside). \<^verbatim>\<open>stylePostcode\<close> filters
  only if the library \<^verbatim>\<open>turf\<close> is defined as well: without it, under a focus on the
  rectangle from (0, 0) to (10, 10), the region around (25, 25), which is outside, is
  not hidden and the region around (3, 3), which is inside, is not emphasised; both get
  the ordinary style.
\<close>

theorem stylePostcode_without_turf:
  "activeBoroughGeometry (focusState (rectangle ''A'' (0, 0) (10, 10)))
     = Some (rectangle ''A'' (0, 0) (10, 10))
   \<and> boxContains (boxCenter (rectangle ''B'' (20, 20) (30, 30)))
        (rectangle ''A'' (0, 0) (10, 10)) = Inr False
   \<and> boxContains (boxCenter (rectangle ''A'' (2, 2) (4, 4)))
        (rectangle ''A'' (0, 0) (10, 10)) = Inr True
   \<and> stylePostcode (focusState (rectangle ''A'' (0, 0) (10, 10))) None
        (rectangle ''B'' (20, 20) (30, 30))
      = Inr \<lparr>fillColor = ''#ccc'', weight = 1, opacity = 1, color = ''#eee'',
             dashArray = None, fillOpacity = 2 / 10, interactive = None\<rparr>
   \<and> stylePostcode (focusState (rectangle ''A'' (0, 0) (10, 10))) None
        (rectangle ''B'' (20, 20) (30, 30)) \<noteq> Inr hiddenStyle
   \<and> stylePostcode (focusState (rectangle ''A'' (0, 0) (10, 10))) None
        (rectangle ''A'' (2, 2) (4, 4))
      = Inr \<lparr>fillColor = ''#f97316'', weight = 1, opacity = 1, color = ''#eee'',
             dashArray = Some [], fillOpacity = 8 / 10, interactive = None\<rparr>
   \<and> stylePostcode (focusState (rectangle ''A'' (0, 0) (10, 10))) None
        (rectangle ''A'' (2, 2) (4, 4))
      \<noteq> getFeatureStyle (focusState (rectangle ''A'' (0, 0) (10, 10)))
           (rectangle ''A'' (2, 2) (4, 4)) (9 / 10) (15 / 10) ''#fff'' (9 / 10)"
  using boxTurf_outside boxTurf_inside
  by (simp add: stylePostcode_def focus_style_inside focus_style_outside hiddenStyle_def
      focusState_fields boxTurf_def)

text \<open>
  Claim C6, amended. When a focus geometry is active and the library \<^verbatim>\<open>turf\<close> is
  defined: every fine region for whose centre the point-in-polygon test against the focus
  returns false is styled fully transparent, with weight 0, and non-interactive; every
  fine region for which it returns true is styled by \<^verbatim>\<open>getFeatureStyle\<close> with the
  border weight 1.5 and the border colour \<^verbatim>\<open>#fff\<close>, which gives the metric-driven fill
  colour of the ordinary style. When no focus is active, every fine region is styled by
  the ordinary call of \<^verbatim>\<open>getFeatureStyle\<close>, with the border weight 1 and the border
  colour \<^verbatim>\<open>#eee\<close>.
\<close>

theorem stylePostcode_focus:
  "(activeBoroughGeometry st = Some g \<and> turf = Some T
      \<and> booleanPointInPolygon T (center T f) g = Inr False \<longrightarrow>
      stylePostcode st turf f =
        Inr \<lparr>fillColor = ''transparent'', weight = 0, opacity = 0, color = ''transparent'',
             dashArray = None, fillOpacity = 0, interactive = Some False\<rparr>)
   \<and> (activeBoroughGeometry st = Some g \<and> turf = Some T
        \<and> booleanPointInPolygon T (center T f) g = Inr True \<longrightarrow>
        stylePostcode st turf f
          = getFeatureStyle st f (9 / 10) (15 / 10) ''#fff'' (9 / 10)
        \<and> map_sum id fillColor (getFeatureStyle st f (9 / 10) (15 / 10) ''#fff'' (9 / 10))
            = map_sum id fillColor (getFeatureStyle st f (9 / 10) 1 ''#eee'' (8 / 10))
        \<and> (\<forall>s. getFeatureStyle st f (9 / 10) (15 / 10) ''#fff'' (9 / 10) = Inr s \<longrightarrow>
              weight s = 15 / 10 \<and> color s = ''#fff''))
   \<and> (activeBoroughGeometry st = None \<longrightarrow>
        stylePostcode st turf f = getFeatureStyle st f (9 / 10) 1 ''#eee'' (8 / 10)
        \<and> (\<forall>s. getFeatureStyle st f (9 / 10) 1 ''#eee'' (8 / 10) = Inr s \<longrightarrow>
              weight s = 1 \<and> color s = ''#eee''))"
  using fillColor_any_border [of st f "9 / 10" "15 / 10" "''#fff''" "9 / 10"]
    getFeatureStyle_border [of st f "9 / 10" "15 / 10" "''#fff''" "9 / 10"]
    getFeatureStyle_border [of st f "9 / 10" 1 "''#eee''" "8 / 10"]
  by (simp add: stylePostcode_def hiddenStyle_def)

theorem stylePostcode_focus_witness:
  "stylePostcode (focusState (rectangle ''A'' (0, 0) (10, 10))) (Some boxTurf)
        (rectangle ''B'' (20, 20) (30, 30))
      = Inr \<lparr>fillColor = ''transparent'', weight = 0, opacity = 0, color = ''transparent'',
             dashArray = None, fillOpacity = 0, interactive = Some False\<rparr>
   \<and> stylePostcode (focusState (rectangle ''A'' (0, 0) (10, 10))) (Some boxTurf)
        (rectangle ''A'' (2, 2) (4, 4))
      = Inr \<lparr>fillColor = ''#f97316'', weight = 15 / 10, opacity = 1, color = ''#fff'',
             dashArray = Some [], fillOpacity = 9 / 10, interactive = None\<rparr>
   \<and> stylePostcode (loadedState scenarioData []) (Some boxTurf)
        (rectangle ''B'' (20, 20) (30, 30))
      = getFeatureStyle (loadedState scenarioData [])
           (rectangle ''B'' (20, 20) (30, 30)) (9 / 10) 1 ''#eee'' (8 / 10)"
proof -
  let ?A = "rectangle ''A'' (0, 0) (10, 10)"
  have f: "activeBoroughGeometry (focusState ?A) = Some ?A"
    by (simp add: focusState_fields)
  have n: "activeBoroughGeometry (loadedState scenarioData []) = None"
    by (simp add: loadedState_fields)
  show ?thesis
    using f n boxTurf_outside boxTurf_inside
      stylePostcode_focus [of "focusState ?A" ?A "Some boxTurf" boxTurf
        "rectangle ''B'' (20, 20) (30, 30)"]
      stylePostcode_focus [of "focusState ?A" ?A "Some boxTurf" boxTurf
        "rectangle ''A'' (2, 2) (4, 4)"]
      stylePostcode_focus [of "loadedState scenarioData []" ?A "Some boxTurf" boxTurf
        "rectangle ''B'' (20, 20) (30, 30)"]
    by (simp add: focus_style_inside)
qed

text \<open>
  Claim C10 says that a point-in-polygon test that cannot be made counts as inside.
  \<^verbatim>\<open>stylePostcode\<close> does not catch the exception: under a focus on a degenerate
  polygon, with a library that throws on it, no style is returned.
\<close>

theorem stylePostcode_throws:
  "activeBoroughGeometry (focusState (sliver ''A'' (0, 0) (10, 10)))
     = Some (sliver ''A'' (0, 0) (10, 10))
   \<and> booleanPointInPolygon boxTurf (center boxTurf (rectangle ''A'' (2, 2) (4, 4)))
        (sliver ''A'' (0, 0) (10, 10)) = Inl (LibraryError ''degenerate polygon'')
   \<and> stylePostcode (focusState (sliver ''A'' (0, 0) (10, 10))) (Some boxTurf)
        (rectangle ''A'' (2, 2) (4, 4))
        = Inl (LibraryError ''degenerate polygon'')
   \<and> stylePostcode (focusState (sliver ''A'' (0, 0) (10, 10))) (Some boxTurf)
        (rectangle ''A'' (2, 2) (4, 4))
        \<noteq> getFeatureStyle (focusState (sliver ''A'' (0, 0) (10, 10)))
             (rectangle ''A'' (2, 2) (4, 4)) (9 / 10) (15 / 10) ''#fff'' (9 / 10)"
  by (simp add: stylePostcode_def boxTurf_degenerate focusState_fields focus_style_inside)

text \<open>
  Claim C10, amended. When the point-in-polygon test against the active focus geometry
  throws, \<^verbatim>\<open>stylePostcode\<close> throws the same exception. When the library \<^verbatim>\<open>turf\<close> is
  not defined, no test is made and every fine region is styled by the ordinary call of
  \<^verbatim>\<open>getFeatureStyle\<close>, with or without a focus.
\<close>

theorem stylePostcode_errors:
  "(activeBoroughGeometry st = Some g \<and> turf = Some T
      \<and> booleanPointInPolygon T (center T f) g = Inl e \<longrightarrow>
      stylePostcode st turf f = Inl e)
   \<and> (turf = None \<longrightarrow>
        stylePostcode st turf f = getFeatureStyle st f (9 / 10) 1 ''#eee'' (8 / 10))"
  by (simp add: stylePostcode_def split: option.splits)

theorem stylePostcode_errors_witness:
  "stylePostcode (focusState (sliver ''A'' (0, 0) (10, 10))) (Some boxTurf)
       (rectangle ''A'' (2, 2) (4, 4))
     = Inl (LibraryError ''degenerate polygon'')
   \<and> stylePostcode (focusState (sliver ''A'' (0, 0) (10, 10))) None
       (rectangle ''A'' (2, 2) (4, 4))
     = Inr \<lparr>fillColor = ''#f97316'', weight = 1, opacity = 1, color = ''#eee'',
            dashArray = Some [], fillOpacity = 8 / 10, interactive = None\<rparr>"
proof -
  let ?g = "sliver ''A'' (0, 0) (10, 10)"
  have f: "activeBoroughGeometry (focusState ?g) = Some ?g"
    by (simp add: focusState_fields)
  show ?thesis
    using f boxTurf_degenerate
      stylePostcode_errors [of "focusState ?g" ?g "Some boxTurf" boxTurf
        "rectangle ''A'' (2, 2) (4, 4)" "LibraryError ''degenerate polygon''"]
      stylePostcode_errors [of "focusState ?g" ?g None boxTurf
        "rectangle ''A'' (2, 2) (4, 4)" "LibraryError ''degenerate polygon''"]
    by (simp add: focus_style_inside)
qed


section \<open>Properties of the focus activation\<close>

lemma not_declared: "''updatePostcodeLabels'' \<notin> set script_functions"
  by (simp add: script_functions_def)

lemma setStyle_succeeds:
  assumes "\<forall>x \<in> set ls. \<exists>sty. sf (fst x) = Inr sty"
  shows "setStyle sf ls =
     (map (\<lambda>(x, s). (x, case sf x of Inr s' \<Rightarrow> s' | Inl e \<Rightarrow> s)) ls, None)"
  using assms by (induction ls) (auto split: sum.splits prod.splits)

lemma setStyle_stops:
  assumes "\<forall>y \<in> set pre. \<exists>sty. sf (fst y) = Inr sty" "sf x = Inl e"
  shows "setStyle sf (pre @ (x, s) # post) =
     (map (\<lambda>(x, s). (x, case sf x of Inr s' \<Rightarrow> s' | Inl e \<Rightarrow> s)) pre @ (x, s) # post,
      Some e)"
  using assms by (induction pre) (auto split: sum.splits prod.splits)

lemma callGlobal_unbound:
  "page g = None \<Longrightarrow> callGlobal page g s = Threw (ReferenceError g) s"
  by (simp add: callGlobal_def)

lemma focused_degenerate:
  "stylePostcode
     (loadedState scenarioData ps
        \<lparr>activeBoroughGeometry := Some (sliver ''A'' (0, 0) (10, 10)), viewport := Some b\<rparr>)
     (Some boxTurf) x = Inl (LibraryError ''degenerate polygon'')"
  by (simp add: stylePostcode_def boxTurf_def boxContains_def sliver_def loadedState_fields)

text \<open>
  Claim C2 says that every focus activation ends by a ReferenceError. A click on a
  region whose polygon is degenerate, with a library that throws on it, ends by the
  exception of the library, thrown while the fine layer is restyled: the call of
  \<^verbatim>\<open>updatePostcodeLabels\<close> is not reached.
\<close>

theorem boroughClick_library_error:
  "otherScripts ''updatePostcodeLabels'' = None
   \<and> boroughClick otherScripts (Some boxTurf)
       (loadedState scenarioData
          [(rectangle ''B'' (20, 20) (30, 30)\<lparr>labelMarker := Some 0\<rparr>,
            \<lparr>fillColor = ''#ccc'', weight = 1, opacity = 1, color = ''#eee'',
             dashArray = None, fillOpacity = 2 / 10, interactive = None\<rparr>)])
       (sliver ''A'' (0, 0) (10, 10)) ((0, 0), (10, 10)) =
     Threw (LibraryError ''degenerate polygon'')
       (loadedState scenarioData
          [(rectangle ''B'' (20, 20) (30, 30)\<lparr>labelMarker := Some 0\<rparr>,
            \<lparr>fillColor = ''#ccc'', weight = 1, opacity = 1, color = ''#eee'',
             dashArray = None, fillOpacity = 2 / 10, interactive = None\<rparr>)]
        \<lparr>activeBoroughGeometry := Some (sliver ''A'' (0, 0) (10, 10)),
           viewport := Some ((0, 0), (10, 10))\<rparr>)
   \<and> boroughClick otherScripts (Some boxTurf)
       (loadedState scenarioData
          [(rectangle ''B'' (20, 20) (30, 30)\<lparr>labelMarker := Some 0\<rparr>,
            \<lparr>fillColor = ''#ccc'', weight = 1, opacity = 1, color = ''#eee'',
             dashArray = None, fillOpacity = 2 / 10, interactive = None\<rparr>)])
       (sliver ''A'' (0, 0) (10, 10)) ((0, 0), (10, 10)) \<noteq>
     Threw (ReferenceError ''updatePostcodeLabels'')
       (loadedState scenarioData
          [(rectangle ''B'' (20, 20) (30, 30)\<lparr>labelMarker := Some 0\<rparr>,
            \<lparr>fillColor = ''#ccc'', weight = 1, opacity = 1, color = ''#eee'',
             dashArray = None, fillOpacity = 2 / 10, interactive = None\<rparr>)]
        \<lparr>activeBoroughGeometry := Some (sliver ''A'' (0, 0) (10, 10)),
           viewport := Some ((0, 0), (10, 10))\<rparr>)"
proof -
  let ?l = "[(rectangle ''B'' (20, 20) (30, 30)\<lparr>labelMarker := Some 0\<rparr>,
            \<lparr>fillColor = ''#ccc'', weight = 1, opacity = 1, color = ''#eee'',
             dashArray = None, fillOpacity = 2 / 10, interactive = None\<rparr>)]"
  let ?st = "loadedState scenarioData ?l"
  have "boroughClick otherScripts (Some boxTurf) ?st (sliver ''A'' (0, 0) (10, 10))
      ((0, 0), (10, 10)) =
     Threw (LibraryError ''degenerate polygon'')
       (?st\<lparr>activeBoroughGeometry := Some (sliver ''A'' (0, 0) (10, 10)),
           viewport := Some ((0, 0), (10, 10)), postcodeLayer := ?l\<rparr>)"
    by (simp add: boroughClick_def Let_def loadedState_fields focused_degenerate)
  then show ?thesis
    by (simp add: otherScripts_def loadedState_def)
qed

text \<open>
  Claim C2, amended. \<^verbatim>\<open>script.js\<close> declares no function \<^verbatim>\<open>updatePostcodeLabels\<close>.
  When no other script binds the name, a click on a coarse region never returns
  normally: it sets the active focus geometry and fits the viewport to the bounds of the
  region, then restyles the fine layer. When the restyle completes, every fine region
  has its new style and the call of \<^verbatim>\<open>updatePostcodeLabels\<close> raises a ReferenceError.
  When the style function throws on a fine region, the click ends by that exception: the
  regions before it have their new style, that region and those after it keep theirs.
\<close>

theorem boroughClick_raises:
  assumes "page ''updatePostcodeLabels'' = None"
  shows "''updatePostcodeLabels'' \<notin> set script_functions
    \<and> (\<exists>e s. boroughClick page turf st f b = Threw e s
          \<and> activeBoroughGeometry s = Some f \<and> viewport s = Some b)
    \<and> ((\<forall>x \<in> set (postcodeLayer st). \<exists>sty.
            stylePostcode (st\<lparr>activeBoroughGeometry := Some f, viewport := Some b\<rparr>) turf (fst x)
              = Inr sty) \<longrightarrow>
         boroughClick page turf st f b =
           Threw (ReferenceError ''updatePostcodeLabels'')
             (st\<lparr>activeBoroughGeometry := Some f, viewport := Some b,
                 postcodeLayer :=
                   map (\<lambda>(x, s).
                       (x, case stylePostcode
                              (st\<lparr>activeBoroughGeometry := Some f, viewport := Some b\<rparr>)
                              turf x of
                             Inr s' \<Rightarrow> s' | Inl e \<Rightarrow> s))
                     (postcodeLayer st)\<rparr>))
    \<and> (\<forall>pre x s0 post e.
          postcodeLayer st = pre @ (x, s0) # post
          \<and> (\<forall>y \<in> set pre. \<exists>sty.
                stylePostcode (st\<lparr>activeBoroughGeometry := Some f, viewport := Some b\<rparr>) turf
                  (fst y) = Inr sty)
          \<and> stylePostcode (st\<lparr>activeBoroughGeometry := Some f, viewport := Some b\<rparr>) turf x
              = Inl e \<longrightarrow>
          boroughClick page turf st f b =
            Threw e
              (st\<lparr>activeBoroughGeometry := Some f, viewport := Some b,
                  postcodeLayer :=
                    map (\<lambda>(x, s).
                        (x, case stylePostcode
                               (st\<lparr>activeBoroughGeometry := Some f, viewport := Some b\<rparr>)
                               turf x of
                              Inr s' \<Rightarrow> s' | Inl e \<Rightarrow> s))
                      pre @ (x, s0) # post\<rparr>))"
proof -
  let ?st2 = "st\<lparr>activeBoroughGeometry := Some f, viewport := Some b\<rparr>"
  let ?restyle = "\<lambda>(x, s). (x, case stylePostcode ?st2 turf x of Inr s' \<Rightarrow> s' | Inl e \<Rightarrow> s)"
  obtain ls r where sr: "setStyle (stylePostcode ?st2 turf) (postcodeLayer st) = (ls, r)"
    by (cases "setStyle (stylePostcode ?st2 turf) (postcodeLayer st)")
  have never: "\<exists>e s. boroughClick page turf st f b = Threw e s
      \<and> activeBoroughGeometry s = Some f \<and> viewport s = Some b"
  proof (cases r)
    case None
    then show ?thesis
      using sr assms by (simp add: boroughClick_def callGlobal_unbound)
  next
    case (Some e)
    then show ?thesis
      using sr by (simp add: boroughClick_def)
  qed
  have reach: "boroughClick page turf st f b =
      Threw (ReferenceError ''updatePostcodeLabels'')
        (?st2\<lparr>postcodeLayer := map ?restyle (postcodeLayer st)\<rparr>)"
    if "\<forall>x \<in> set (postcodeLayer st). \<exists>sty. stylePostcode ?st2 turf (fst x) = Inr sty"
    using setStyle_succeeds [OF that] assms
    by (simp add: boroughClick_def callGlobal_unbound Let_def)
  have stop: "boroughClick page turf st f b =
      Threw e (?st2\<lparr>postcodeLayer := map ?restyle pre @ (x, s0) # post\<rparr>)"
    if "postcodeLayer st = pre @ (x, s0) # post"
      "\<forall>y \<in> set pre. \<exists>sty. stylePostcode ?st2 turf (fst y) = Inr sty"
      "stylePostcode ?st2 turf x = Inl e"
    for pre x s0 post e
    using setStyle_stops [OF that(2,3), of s0 post] that(1)
    by (simp add: boroughClick_def Let_def)
  show ?thesis
    using not_declared never reach stop by blast
qed

lemma focused_inside:
  "stylePostcode
     (loadedState scenarioData ps
        \<lparr>activeBoroughGeometry := Some (rectangle ''A'' (0, 0) (10, 10)), viewport := Some b\<rparr>)
     (Some boxTurf) (rectangle ''A'' (2, 2) (4, 4)\<lparr>labelMarker := Some m\<rparr>) =
   Inr \<lparr>fillColor = ''#f97316'', weight = 15 / 10, opacity = 1, color = ''#fff'',
        dashArray = Some [], fillOpacity = 9 / 10, interactive = None\<rparr>"
  by (simp add: stylePostcode_def boxTurf_def boxCenter_def boxContains_def
      boundingBox_def rectangle_def getFeatureStyle_def getData_def loadedState_fields
      loadedState_mode scenarioData_def resolveValue_def scenarioRecord_def
      getPriceColor_def)

lemma focused_outside:
  "stylePostcode
     (loadedState scenarioData ps
        \<lparr>activeBoroughGeometry := Some (rectangle ''A'' (0, 0) (10, 10)), viewport := Some b\<rparr>)
     (Some boxTurf) (rectangle ''B'' (20, 20) (30, 30)\<lparr>labelMarker := Some m\<rparr>) =
   Inr hiddenStyle"
  by (simp add: stylePostcode_def boxTurf_def boxCenter_def boxContains_def
      boundingBox_def rectangle_def loadedState_fields)

theorem boroughClick_raises_witness:
  "otherScripts ''updatePostcodeLabels'' = None
   \<and> boroughClick otherScripts (Some boxTurf) (loadedState scenarioData scenarioLayer)
       (rectangle ''A'' (0, 0) (10, 10)) ((0, 0), (10, 10)) =
     Threw (ReferenceError ''updatePostcodeLabels'')
       (loadedState scenarioData scenarioLayer
        \<lparr>activeBoroughGeometry := Some (rectangle ''A'' (0, 0) (10, 10)),
           viewport := Some ((0, 0), (10, 10)),
           postcodeLayer :=
             [(rectangle ''A'' (2, 2) (4, 4)\<lparr>labelMarker := Some 0\<rparr>,
               \<lparr>fillColor = ''#f97316'', weight = 15 / 10, opacity = 1, color = ''#fff'',
                dashArray = Some [], fillOpacity = 9 / 10, interactive = None\<rparr>),
              (rectangle ''B'' (20, 20) (30, 30)\<lparr>labelMarker := Some 1\<rparr>,
               hiddenStyle)]\<rparr>)
   \<and> boroughClick otherScripts (Some boxTurf) (loadedState scenarioData scenarioLayer)
       (sliver ''A'' (0, 0) (10, 10)) ((0, 0), (10, 10)) =
     Threw (LibraryError ''degenerate polygon'')
       (loadedState scenarioData scenarioLayer
        \<lparr>activeBoroughGeometry := Some (sliver ''A'' (0, 0) (10, 10)),
           viewport := Some ((0, 0), (10, 10)),
           postcodeLayer := scenarioLayer\<rparr>)"
proof -
  let ?st = "loadedState scenarioData scenarioLayer"
  let ?A = "rectangle ''A'' (0, 0) (10, 10)"
  let ?S = "sliver ''A'' (0, 0) (10, 10)"
  let ?b = "((0, 0), (10, 10)) :: bounds"
  let ?x = "rectangle ''A'' (2, 2) (4, 4)\<lparr>labelMarker := Some 0\<rparr>"
  let ?s0 = "\<lparr>fillColor = ''#f97316'', weight = 1, opacity = 1, color = ''#eee'',
        dashArray = Some [], fillOpacity = 8 / 10, interactive = None\<rparr>"
  let ?post = "[(rectangle ''B'' (20, 20) (30, 30)\<lparr>labelMarker := Some 1\<rparr>,
       \<lparr>fillColor = ''#ccc'', weight = 1, opacity = 1, color = ''#eee'',
        dashArray = None, fillOpacity = 2 / 10, interactive = None\<rparr>)]"
  have p: "otherScripts ''updatePostcodeLabels'' = None"
    by (simp add: otherScripts_def)
  have h: "\<forall>x \<in> set (postcodeLayer ?st). \<exists>sty.
      stylePostcode (?st\<lparr>activeBoroughGeometry := Some ?A, viewport := Some ?b\<rparr>)
        (Some boxTurf) (fst x) = Inr sty"
    by (simp add: loadedState_fields(6) scenarioLayer_def focused_inside focused_outside)
  have ok: "boroughClick otherScripts (Some boxTurf) ?st ?A ?b =
      Threw (ReferenceError ''updatePostcodeLabels'')
        (?st\<lparr>activeBoroughGeometry := Some ?A, viewport := Some ?b,
            postcodeLayer :=
              map (\<lambda>(x, s).
                  (x, case stylePostcode
                         (?st\<lparr>activeBoroughGeometry := Some ?A, viewport := Some ?b\<rparr>)
                         (Some boxTurf) x of
                        Inr s' \<Rightarrow> s' | Inl e \<Rightarrow> s))
                (postcodeLayer ?st)\<rparr>)"
    using boroughClick_raises [of otherScripts "Some boxTurf" ?st ?A ?b] p h by blast
  have d: "postcodeLayer ?st = [] @ (?x, ?s0) # ?post
      \<and> (\<forall>y \<in> set []. \<exists>sty.
            stylePostcode (?st\<lparr>activeBoroughGeometry := Some ?S, viewport := Some ?b\<rparr>)
              (Some boxTurf) (fst y) = Inr sty)
      \<and> stylePostcode (?st\<lparr>activeBoroughGeometry := Some ?S, viewport := Some ?b\<rparr>)
          (Some boxTurf) ?x = Inl (LibraryError ''degenerate polygon'')"
    by (simp add: loadedState_fields(6) scenarioLayer_def focused_degenerate)
  have stop: "boroughClick otherScripts (Some boxTurf) ?st ?S ?b =
      Threw (LibraryError ''degenerate polygon'')
        (?st\<lparr>activeBoroughGeometry := Some ?S, viewport := Some ?b,
            postcodeLayer :=
              map (\<lambda>(x, s).
                  (x, case stylePostcode
                         (?st\<lparr>activeBoroughGeometry := Some ?S, viewport := Some ?b\<rparr>)
                         (Some boxTurf) x of
                        Inr s' \<Rightarrow> s' | Inl e \<Rightarrow> s))
                [] @ (?x, ?s0) # ?post\<rparr>)"
    using boroughClick_raises [of otherScripts "Some boxTurf" ?st ?S ?b] p d by blast
  show ?thesis
    using p ok stop by (simp add: loadedState_fields(6) scenarioLayer_def focused_inside focused_outside)
qed


section \<open>The fine layer of the scenarios\<close>

text \<open>
  \<^verbatim>\<open>loadData\<close> creates the fine layer of the scenarios from its two features, with
  or without the geometry library; a fine feature named \<^verbatim>\<open>constructor\<close> makes it
  fail.
\<close>

lemma loadData_scenario:
  "loadData scenarioData turf
     [rectangle ''A'' (2, 2) (4, 4), rectangle ''B'' (20, 20) (30, 30)]
   = Inr (loadedState scenarioData scenarioLayer)"
  by (simp add: loadData_def stylePostcode_def loadedState_fields loadedState_mode
      getFeatureStyle_def getData_def objectPrototypeKeys_def scenarioData_def
      rectangle_def resolveValue_def scenarioRecord_def getPriceColor_def scenarioLayer_def)

lemma loadData_inherited_name:
  "loadData scenarioData turf [region ''constructor'']
   = Inl (TypeError ''data.prices is undefined'')"
  by (simp add: loadData_def stylePostcode_def loadedState_fields loadedState_mode
      getFeatureStyle_def getData_def objectPrototypeKeys_def scenarioData_def region_def)

end
